theory Spec2Isabelle
  imports Main
begin

section \<open>Data model\<close>

text \<open>
  The task lifecycle of the employee management system. The server side lives in
  \<^verbatim>\<open>backend/routes/employees.js\<close> and the Mongoose models, the client side in
  \<^verbatim>\<open>src/services/taskWorkflow.js\<close>, \<^verbatim>\<open>src/utils/taskUtils.js\<close> and the status
  helper \<^verbatim>\<open>handleStatusUpdate\<close>.

  Dates are milliseconds since the epoch (\<open>int\<close>); a missing date is \<open>None\<close>.
  The schema's string enums are datatypes; the statuses the client compares as
  strings stay strings.
\<close>

text \<open>\<^verbatim>\<open>verificationStatus\<close>: enum \<^verbatim>\<open>['pending','verified','approved','rejected','expired','none','']\<close>.\<close>

datatype vstatus =
  V_empty | V_none | V_pending | V_verified | V_approved | V_rejected | V_expired

text \<open>\<^verbatim>\<open>status\<close>: enum \<^verbatim>\<open>['new','active','completed','failed','pendingVerification','expired']\<close>.\<close>

datatype tstatus =
  S_new | S_active | S_completed | S_failed | S_pendingVerification | S_expired

record document =
  fileName :: string
  originalName :: string
  filePath :: string
  fileSize :: nat
  mimeType :: string
  uploadedAt :: int

text \<open>A file as multer hands it to a route (\<^verbatim>\<open>req.file\<close>, \<^verbatim>\<open>req.files\<close>).\<close>

record upload =
  up_filename :: string
  up_originalname :: string
  up_mimetype :: string
  up_size :: nat

record task =
  task_id :: nat
  status :: tstatus
  newTask :: bool
  active :: bool
  completed :: bool
  failed :: bool
  verificationStatus :: vstatus
  endDate :: "int option"
  submittedDocuments :: "document list"
  updatedAt :: "int option"
  submittedAt :: "int option"
  verifiedAt :: "int option"
  verifiedBy :: "string option"
  rejectedAt :: "int option"
  rejectedBy :: "string option"
  rejectionReason :: "string option"
  verificationNote :: string
  verificationDate :: "int option"

record task_counts =
  active_count :: int
  newTask_count :: int
  completed_count :: int
  failed_count :: int

record employee =
  emp_id :: nat
  tasks :: "task list"
  taskCounts :: task_counts

record admin =
  admin_id :: nat
  employees :: "employee list"

text \<open>Every early return of a route and every thrown error is a value of this type.\<close>

datatype error =
    NoFileUploaded
  | EmployeeNotFound
  | TaskNotFound
  | InvalidStatus
  | NotPendingReview vstatus tstatus
  | OnlyPendingCanComplete vstatus
  | CompletedCannotFail tstatus
  | CannotSetPendingVerification
  | CannotSetExpired
  | UseVerificationEndpoint
  | InvalidStatusValue string
  | TaskExpired
  | InvalidTransition string string
  | NoDocument
  | NoTaskId
  | TerminalState string
  | UnhandledStatus string
  | TypeError

section \<open>The server's state update\<close>

text \<open>\<^verbatim>\<open>task.endDate && new Date(task.endDate) < currentTime\<close>\<close>

definition endDate_before :: "int option \<Rightarrow> int \<Rightarrow> bool" where
  "endDate_before d currentTime = (case d of None \<Rightarrow> False | Some e \<Rightarrow> e < currentTime)"

text \<open>
  \<^verbatim>\<open>updateTaskState(task, currentTime)\<close>, employees.js lines 77-121. The task is
  mutated in place; the model returns the task after the call.
\<close>

definition updateTaskState :: "task \<Rightarrow> int \<Rightarrow> task" where
  "updateTaskState t currentTime =
    (if completed t then t
     else if endDate_before (endDate t) currentTime \<and> \<not> failed t then
       t\<lparr>active := False, newTask := False, completed := False, failed := True,
         verificationStatus := V_expired, updatedAt := Some currentTime\<rparr>
     else
       let t1 = (if verificationStatus t = V_pending
                 then t\<lparr>active := False, newTask := False, completed := False, failed := False\<rparr>
                 else t)
       in t1\<lparr>status :=
            (if failed t1 then S_expired
             else if completed t1 then S_completed
             else if verificationStatus t1 = V_pending then S_pendingVerification
             else if active t1 then S_active
             else if newTask t1 then S_new
             else S_new)\<rparr>)"

text \<open>How many of the four lifecycle flags are set.\<close>

definition trueStates :: "task \<Rightarrow> nat" where
  "trueStates t =
     length (filter (\<lambda>b. b) [newTask t, active t, completed t, failed t])"

section \<open>Counters\<close>

text \<open>JavaScript's \<^verbatim>\<open>x || d\<close> on a number: \<open>0\<close> is falsy.\<close>

definition js_or :: "int \<Rightarrow> int \<Rightarrow> int" where
  "js_or x d = (if x = 0 then d else x)"

text \<open>
  \<^verbatim>\<open>employeeSchema.methods.updateTaskCounts\<close> (models/Employee.js lines 116-146, the
  same four filters in the Admin model and in the fallback of the update route,
  employees.js lines 745-750).
\<close>

definition updateTaskCounts :: "employee \<Rightarrow> employee" where
  "updateTaskCounts e =
     e\<lparr>taskCounts :=
        \<lparr>active_count =
           int (length (filter (\<lambda>t. active t \<and> \<not> completed t \<and> \<not> failed t) (tasks e))),
         newTask_count =
           int (length (filter (\<lambda>t. newTask t \<and> \<not> active t \<and> \<not> completed t \<and> \<not> failed t)
                  (tasks e))),
         completed_count = int (length (filter (\<lambda>t. completed t) (tasks e))),
         failed_count =
           int (length (filter (\<lambda>t. failed t \<and> \<not> completed t) (tasks e)))\<rparr>\<rparr>"

definition sum_counts :: "task_counts \<Rightarrow> int" where
  "sum_counts c = newTask_count c + active_count c + completed_count c + failed_count c"

section \<open>Finding the employee and the task\<close>

text \<open>
  Each route finds the admin that embeds the employee
  (\<^verbatim>\<open>Admin.findOne({ 'employees._id': id })\<close>), the employee
  (\<^verbatim>\<open>admin.employees.id(id)\<close>) and the task (\<^verbatim>\<open>employee.tasks.id(taskId)\<close>), works on
  the objects in place and saves the admin document. \<open>update_first\<close> is that
  pattern: the first element satisfying \<open>p\<close> is replaced by the result of \<open>f\<close>;
  an error of \<open>f\<close> or a missing element leaves the list as it was.
\<close>

fun update_first :: "('a \<Rightarrow> bool) \<Rightarrow> ('a \<Rightarrow> error + 'a) \<Rightarrow> error \<Rightarrow> 'a list \<Rightarrow> error + 'a list" where
  "update_first p f e [] = Inl e"
| "update_first p f e (x # xs) =
     (if p x then (case f x of Inl err \<Rightarrow> Inl err | Inr y \<Rightarrow> Inr (y # xs))
      else (case update_first p f e xs of Inl err \<Rightarrow> Inl err | Inr ys \<Rightarrow> Inr (x # ys)))"

text \<open>The step of a route on the task it found; the counters are the employee's.\<close>

type_synonym task_step = "task_counts \<Rightarrow> task \<Rightarrow> error + task_counts \<times> task"

fun replace_first :: "('a \<Rightarrow> bool) \<Rightarrow> 'a \<Rightarrow> 'a list \<Rightarrow> 'a list" where
  "replace_first p y [] = []"
| "replace_first p y (x # xs) = (if p x then y # xs else x # replace_first p y xs)"

definition on_task :: "nat \<Rightarrow> task_step \<Rightarrow> employee \<Rightarrow> error + employee" where
  "on_task taskId f e =
     (case find (\<lambda>t. task_id t = taskId) (tasks e) of
        None \<Rightarrow> Inl TaskNotFound
      | Some t \<Rightarrow>
          (case f (taskCounts e) t of
             Inl err \<Rightarrow> Inl err
           | Inr (c, t') \<Rightarrow>
               Inr (e\<lparr>tasks := replace_first (\<lambda>t. task_id t = taskId) t' (tasks e),
                      taskCounts := c\<rparr>)))"

definition on_employee :: "nat \<Rightarrow> (employee \<Rightarrow> error + employee) \<Rightarrow> admin list \<Rightarrow> error + admin list" where
  "on_employee employeeId f db =
     update_first (\<lambda>a. list_ex (\<lambda>e. emp_id e = employeeId) (employees a))
       (\<lambda>a. case update_first (\<lambda>e. emp_id e = employeeId) f EmployeeNotFound (employees a) of
               Inl err \<Rightarrow> Inl err
             | Inr es \<Rightarrow> Inr (a\<lparr>employees := es\<rparr>))
       EmployeeNotFound db"

text \<open>What the lookups of a route find in the store.\<close>

definition lookup_employee :: "nat \<Rightarrow> admin list \<Rightarrow> employee option" where
  "lookup_employee employeeId db =
     (case find (\<lambda>a. list_ex (\<lambda>e. emp_id e = employeeId) (employees a)) db of
        None \<Rightarrow> None
      | Some a \<Rightarrow> find (\<lambda>e. emp_id e = employeeId) (employees a))"

definition lookup_task :: "nat \<Rightarrow> nat \<Rightarrow> admin list \<Rightarrow> task option" where
  "lookup_task employeeId taskId db =
     (case lookup_employee employeeId db of
        None \<Rightarrow> None
      | Some e \<Rightarrow> find (\<lambda>t. task_id t = taskId) (tasks e))"

section \<open>Submitting evidence\<close>

definition document_of :: "int \<Rightarrow> upload \<Rightarrow> document" where
  "document_of now f =
     \<lparr>fileName = up_filename f, originalName = up_originalname f,
      filePath = ''/uploads/'' @ up_filename f, fileSize = up_size f,
      mimeType = up_mimetype f, uploadedAt = now\<rparr>"

text \<open>
  \<^verbatim>\<open>POST /:employeeId/tasks/:taskId/documents\<close>, employees.js lines 212-320, on the
  task found (lines 262-291): the document is pushed; the status moves to
  \<^verbatim>\<open>pendingVerification\<close> only from \<^verbatim>\<open>new\<close> or \<^verbatim>\<open>active\<close>. No flag is written.
\<close>

definition upload_document :: "upload \<Rightarrow> int \<Rightarrow> task_step" where
  "upload_document f now c t =
     (let t1 = t\<lparr>submittedDocuments := submittedDocuments t @ [document_of now f]\<rparr>
      in Inr (c, if status t1 = S_new \<or> status t1 = S_active
                 then t1\<lparr>status := S_pendingVerification, verificationStatus := V_pending\<rparr>
                 else t1))"

definition documents_route :: "upload option \<Rightarrow> int \<Rightarrow> nat \<Rightarrow> nat \<Rightarrow> admin list \<Rightarrow> error + admin list" where
  "documents_route file now employeeId taskId db =
     (case file of
        None \<Rightarrow> Inl NoFileUploaded
      | Some f \<Rightarrow> on_employee employeeId (on_task taskId (upload_document f now)) db)"

section \<open>Verifying or rejecting\<close>

text \<open>
  \<^verbatim>\<open>POST /:employeeId/tasks/:taskId/verify\<close>, employees.js lines 381-522. The body's
  \<^verbatim>\<open>status\<close> is \<^verbatim>\<open>'completed'\<close> (approve) or \<^verbatim>\<open>'rejected'\<close> (reject); \<open>adminId\<close>
  is \<^verbatim>\<open>req.user?.id || 'system'\<close>. The step on the task found is lines 436-489.
\<close>

definition verify_task :: "string \<Rightarrow> string option \<Rightarrow> string option \<Rightarrow> string \<Rightarrow> int \<Rightarrow> task_step" where
  "verify_task st reason note adminId currentTime c t =
     (if verificationStatus t \<noteq> V_pending
      then Inl (NotPendingReview (verificationStatus t) (status t))
      else if st = ''completed'' then
        Inr (c\<lparr>completed_count := js_or (completed_count c) 0 + 1,
               active_count := max 0 (js_or (active_count c) 1 - 1)\<rparr>,
             t\<lparr>completed := True, active := False, newTask := False, failed := False,
               verificationStatus := V_approved, verifiedAt := Some currentTime,
               verifiedBy := Some adminId, updatedAt := Some currentTime\<rparr>)
      else if st = ''rejected'' then
        Inr (c\<lparr>active_count := js_or (active_count c) 0 + 1\<rparr>,
             t\<lparr>completed := False, active := True, newTask := False, failed := False,
               verificationStatus := V_rejected, rejectedAt := Some currentTime,
               rejectedBy := Some adminId,
               rejectionReason :=
                 Some (case reason of None \<Rightarrow> ''No reason provided''
                       | Some r \<Rightarrow> if r = [] then ''No reason provided'' else r),
               verificationNote :=
                 (case note of None \<Rightarrow> ''Task rejected - please resubmit''
                  | Some n \<Rightarrow> if n = [] then ''Task rejected - please resubmit'' else n),
               verificationDate := Some currentTime, updatedAt := Some currentTime\<rparr>)
      else Inr (c, t))"

definition verify_route ::
  "string \<Rightarrow> string option \<Rightarrow> string option \<Rightarrow> string \<Rightarrow> int \<Rightarrow> nat \<Rightarrow> nat \<Rightarrow> admin list
     \<Rightarrow> error + admin list" where
  "verify_route st reason note adminId currentTime employeeId taskId db =
     (if st \<noteq> ''completed'' \<and> st \<noteq> ''rejected'' then Inl InvalidStatus
      else on_employee employeeId
             (on_task taskId (verify_task st reason note adminId currentTime)) db)"

section \<open>The update route\<close>

text \<open>
  \<^verbatim>\<open>PUT /:id/tasks/:taskId\<close>, employees.js lines 525-788. The body is
  \<^verbatim>\<open>{ status, ...updateData }\<close>; every other key of the body is written on the task
  (lines 730-734), in the order of \<^verbatim>\<open>Object.entries\<close>. A key the model has no field
  for is \<open>Set_other\<close>.
\<close>

datatype field_update =
    Set_id nat
  | Set_newTask bool
  | Set_active bool
  | Set_completed bool
  | Set_failed bool
  | Set_verificationStatus vstatus
  | Set_endDate "int option"
  | Set_submittedDocuments "document list"
  | Set_updatedAt "int option"
  | Set_submittedAt "int option"
  | Set_verifiedAt "int option"
  | Set_rejectedAt "int option"
  | Set_verificationNote string
  | Set_other string

fun apply_update :: "task \<Rightarrow> field_update \<Rightarrow> task" where
  "apply_update t (Set_id _) = t"
| "apply_update t (Set_newTask b) = t\<lparr>newTask := b\<rparr>"
| "apply_update t (Set_active b) = t\<lparr>active := b\<rparr>"
| "apply_update t (Set_completed b) = t\<lparr>completed := b\<rparr>"
| "apply_update t (Set_failed b) = t\<lparr>failed := b\<rparr>"
| "apply_update t (Set_verificationStatus v) = t\<lparr>verificationStatus := v\<rparr>"
| "apply_update t (Set_endDate d) = t\<lparr>endDate := d\<rparr>"
| "apply_update t (Set_submittedDocuments ds) = t\<lparr>submittedDocuments := ds\<rparr>"
| "apply_update t (Set_updatedAt d) = t\<lparr>updatedAt := d\<rparr>"
| "apply_update t (Set_submittedAt d) = t\<lparr>submittedAt := d\<rparr>"
| "apply_update t (Set_verifiedAt d) = t\<lparr>verifiedAt := d\<rparr>"
| "apply_update t (Set_rejectedAt d) = t\<lparr>rejectedAt := d\<rparr>"
| "apply_update t (Set_verificationNote n) = t\<lparr>verificationNote := n\<rparr>"
| "apply_update t (Set_other _) = t"

text \<open>Lines 589-621: the request carries files.\<close>

definition put_files :: "upload list \<Rightarrow> int \<Rightarrow> task_counts \<Rightarrow> task \<Rightarrow> task_counts \<times> task" where
  "put_files files currentTime c t =
     (let (c1, t1) =
        (if verificationStatus t \<noteq> V_pending then
           (let t' = t\<lparr>active := False, completed := False, failed := False, newTask := False,
                       verificationStatus := V_pending, submittedAt := Some currentTime\<rparr>
            in (if verificationStatus t' = V_rejected
                then c\<lparr>active_count := max 0 (js_or (active_count c) 0 - 1)\<rparr>
                else c, t'))
         else (c, t))
      in (c1, t1\<lparr>submittedDocuments := submittedDocuments t1 @ map (document_of currentTime) files,
                 status := S_pendingVerification\<rparr>))"

text \<open>Lines 716-726: the status label after a status change.\<close>

definition put_status_label :: "task \<Rightarrow> tstatus" where
  "put_status_label t =
     (if completed t then S_completed
      else if failed t then S_failed
      else if verificationStatus t = V_pending then S_pendingVerification
      else if active t then S_active
      else S_new)"

text \<open>Lines 623-727: the request names a status; \<open>note\<close> is \<^verbatim>\<open>req.body.note\<close>.\<close>

definition put_status :: "string \<Rightarrow> string \<Rightarrow> string option \<Rightarrow> int \<Rightarrow> task_step" where
  "put_status st adminId note currentTime c t =
     (case
        (if st = ''active'' then
           Inr (c, t\<lparr>active := True, completed := False, failed := False, newTask := False,
                     verificationStatus := V_empty\<rparr>)
         else if st = ''completed'' then
           (if verificationStatus t \<noteq> V_pending
            then Inl (OnlyPendingCanComplete (verificationStatus t))
            else Inr (c\<lparr>completed_count := js_or (completed_count c) 0 + 1,
                        active_count := max 0 (js_or (active_count c) 1 - 1)\<rparr>,
                      t\<lparr>completed := True, active := False, failed := False, newTask := False,
                        verificationStatus := V_approved, verifiedAt := Some currentTime,
                        verifiedBy := Some adminId\<rparr>))
         else if st = ''failed'' then
           (if completed t then Inl (CompletedCannotFail (status t))
            else
              (let c1 = c\<lparr>failed_count := js_or (failed_count c) 0 + 1\<rparr>;
                   c2 = (if status t = S_active
                         then c1\<lparr>active_count := max 0 (js_or (active_count c1) 1 - 1)\<rparr>
                         else c1)
               in Inr (c2,
                    t\<lparr>failed := True, active := False, completed := False, newTask := False,
                      verificationStatus := V_expired,
                      verificationNote := (case note of None \<Rightarrow> [] | Some n \<Rightarrow> n),
                      verificationDate := Some currentTime\<rparr>)))
         else if st = ''pendingVerification'' then Inl CannotSetPendingVerification
         else if st = ''expired'' then Inl CannotSetExpired
         else if st = ''rejected'' then Inl UseVerificationEndpoint
         else Inl (InvalidStatusValue st))
      of Inl err \<Rightarrow> Inl err
       | Inr (c', t') \<Rightarrow> Inr (c', t'\<lparr>status := put_status_label t'\<rparr>))"

text \<open>
  The step on the task found (lines 584-737): files, else a status, then the other
  keys of the body, then \<^verbatim>\<open>updateTaskState(task, new Date())\<close> at the later time
  \<open>stateTime\<close>.
\<close>

definition put_task ::
  "string option \<Rightarrow> field_update list \<Rightarrow> upload list \<Rightarrow> string \<Rightarrow> string option \<Rightarrow> int \<Rightarrow> int
     \<Rightarrow> task_step" where
  "put_task st updateData files adminId note currentTime stateTime c t =
     (case
        (if files \<noteq> [] then Inr (put_files files currentTime c t)
         else
           (case st of
              None \<Rightarrow> Inr (c, t)
            | Some s \<Rightarrow> if s = [] then Inr (c, t) else put_status s adminId note currentTime c t))
      of Inl err \<Rightarrow> Inl err
       | Inr (c', t') \<Rightarrow> Inr (c', updateTaskState (foldl apply_update t' updateData) stateTime))"

text \<open>The route: the step on the task, then \<^verbatim>\<open>employee.updateTaskCounts()\<close> (lines 739-751).\<close>

definition put_route ::
  "string option \<Rightarrow> field_update list \<Rightarrow> upload list \<Rightarrow> string \<Rightarrow> string option \<Rightarrow> int \<Rightarrow> int
     \<Rightarrow> nat \<Rightarrow> nat \<Rightarrow> admin list \<Rightarrow> error + admin list" where
  "put_route st updateData files adminId note currentTime stateTime employeeId taskId db =
     on_employee employeeId
       (\<lambda>e. case on_task taskId
                  (put_task st updateData files adminId note currentTime stateTime) e of
               Inl err \<Rightarrow> Inl err
             | Inr e' \<Rightarrow> Inr (updateTaskCounts e'))
       db"

section \<open>The expiration sweep\<close>

text \<open>
  \<^verbatim>\<open>POST /tasks/check-expired\<close>, employees.js lines 791-884. The query (lines 800-811)
  selects the admins with a task that is active or pending, past its end date and
  neither completed nor failed; the loops (lines 814-859) then visit every task of
  every employee of a selected admin.
\<close>

definition sweep_query :: "int \<Rightarrow> task \<Rightarrow> bool" where
  "sweep_query currentTime t =
     (((active t \<and> endDate_before (endDate t) currentTime)
       \<or> (verificationStatus t = V_pending \<and> endDate_before (endDate t) currentTime))
      \<and> \<not> completed t \<and> \<not> failed t)"

definition sweep_selects :: "int \<Rightarrow> admin \<Rightarrow> bool" where
  "sweep_selects currentTime a =
     list_ex (\<lambda>e. list_ex (sweep_query currentTime) (tasks e)) (employees a)"

text \<open>One round of the innermost loop (lines 823-846): counters, task, tasks updated so far.\<close>

definition sweep_task :: "int \<Rightarrow> task_counts \<times> nat \<Rightarrow> task \<Rightarrow> (task_counts \<times> nat) \<times> task" where
  "sweep_task currentTime cn t =
     (if completed t \<or> failed t then (cn, t)
      else if endDate_before (endDate t) currentTime then
        (let t' = t\<lparr>active := False, completed := False, failed := True,
                    verificationStatus := V_expired, updatedAt := Some currentTime\<rparr>;
             c = fst cn;
             c1 = (if status t' = S_active
                   then c\<lparr>active_count := max 0 (js_or (active_count c) 1 - 1)\<rparr>
                   else c);
             c2 = c1\<lparr>failed_count := js_or (failed_count c1) 0 + 1\<rparr>
         in ((c2, snd cn + 1), t'))
      else (cn, t))"

fun sweep_tasks :: "int \<Rightarrow> task_counts \<times> nat \<Rightarrow> task list \<Rightarrow> (task_counts \<times> nat) \<times> task list" where
  "sweep_tasks currentTime cn [] = (cn, [])"
| "sweep_tasks currentTime cn (t # ts) =
     (let (cn1, t') = sweep_task currentTime cn t;
          (cn2, ts') = sweep_tasks currentTime cn1 ts
      in (cn2, t' # ts'))"

definition sweep_employee :: "int \<Rightarrow> nat \<Rightarrow> employee \<Rightarrow> nat \<times> employee" where
  "sweep_employee currentTime n e =
     (let ((c, n'), ts) = sweep_tasks currentTime (taskCounts e, n) (tasks e)
      in (n', e\<lparr>tasks := ts, taskCounts := c\<rparr>))"

fun sweep_employees :: "int \<Rightarrow> nat \<Rightarrow> employee list \<Rightarrow> nat \<times> employee list" where
  "sweep_employees currentTime n [] = (n, [])"
| "sweep_employees currentTime n (e # es) =
     (let (n1, e') = sweep_employee currentTime n e;
          (n2, es') = sweep_employees currentTime n1 es
      in (n2, e' # es'))"

fun sweep_admins :: "int \<Rightarrow> nat \<Rightarrow> admin list \<Rightarrow> nat \<times> admin list" where
  "sweep_admins currentTime n [] = (n, [])"
| "sweep_admins currentTime n (a # as) =
     (if sweep_selects currentTime a then
        (let (n1, es) = sweep_employees currentTime n (employees a);
             (n2, as') = sweep_admins currentTime n1 as
         in (n2, a\<lparr>employees := es\<rparr> # as'))
      else
        (let (n2, as') = sweep_admins currentTime n as in (n2, a # as')))"

text \<open>The sweep: \<open>updatedCount\<close> and the stored admins after it.\<close>

definition sweepExpired :: "int \<Rightarrow> admin list \<Rightarrow> nat \<times> admin list" where
  "sweepExpired currentTime db = sweep_admins currentTime 0 db"

section \<open>The cleanup script\<close>

text \<open>\<^verbatim>\<open>fixTaskStates\<close> (scripts, lines 39-89), on one task: it acts on more than one flag only.\<close>

definition fix_task :: "task \<Rightarrow> task" where
  "fix_task t =
     (if trueStates t > 1 then
        (if completed t then t\<lparr>newTask := False, active := False, completed := True, failed := False\<rparr>
         else if failed t then t\<lparr>newTask := False, active := False, completed := False, failed := True\<rparr>
         else if active t then t\<lparr>newTask := False, active := True, completed := False, failed := False\<rparr>
         else t\<lparr>newTask := True, active := False, completed := False, failed := False\<rparr>)
      else t)"

definition fixTaskStates :: "employee \<Rightarrow> nat \<times> employee" where
  "fixTaskStates e =
     (let n = length (filter (\<lambda>t. trueStates t > 1) (tasks e))
      in if n > 0 then (n, updateTaskCounts (e\<lparr>tasks := map fix_task (tasks e)\<rparr>))
         else (0, e))"

section \<open>The client's workflow service\<close>

text \<open>
  A task object as the client holds it. Its fields are read for truthiness only, so
  the flags are booleans; \<open>c_pendingVerification\<close> is the \<^verbatim>\<open>pendingVerification\<close> key
  the workflow service reads; a missing \<^verbatim>\<open>endDate\<close>, \<^verbatim>\<open>submittedDocuments\<close>,
  \<^verbatim>\<open>documentUrl\<close> or \<^verbatim>\<open>_id\<close> is \<open>None\<close>.
\<close>

record client_task =
  c_id :: "string option"
  c_status :: string
  c_newTask :: bool
  c_active :: bool
  c_completed :: bool
  c_failed :: bool
  c_pendingVerification :: bool
  c_verificationStatus :: vstatus
  c_endDate :: "int option"
  c_submittedDocuments :: "document list option"
  c_documentUrl :: "string option"

text \<open>The four-flag object \<^verbatim>\<open>acceptTask\<close> returns, and the five-flag one of \<^verbatim>\<open>determineTaskState\<close>.\<close>

record flag_state =
  fs_newTask :: bool
  fs_active :: bool
  fs_completed :: bool
  fs_failed :: bool

record task_state = flag_state +
  fs_pendingVerification :: bool

text \<open>\<^verbatim>\<open>isTaskExpired\<close>: \<^verbatim>\<open>now > new Date(task.endDate)\<close>; an invalid date compares false.\<close>

definition isTaskExpired :: "int \<Rightarrow> client_task \<Rightarrow> bool" where
  "isTaskExpired now t = (case c_endDate t of None \<Rightarrow> False | Some e \<Rightarrow> now > e)"

definition hasSubmittedDocuments :: "client_task \<Rightarrow> bool" where
  "hasSubmittedDocuments t =
     (case c_submittedDocuments t of None \<Rightarrow> False | Some ds \<Rightarrow> length ds > 0)"

definition mk_state :: "bool \<Rightarrow> bool \<Rightarrow> bool \<Rightarrow> bool \<Rightarrow> bool \<Rightarrow> task_state" where
  "mk_state n a c f p =
     \<lparr>fs_newTask = n, fs_active = a, fs_completed = c, fs_failed = f,
      fs_pendingVerification = p\<rparr>"

text \<open>\<^verbatim>\<open>TaskWorkflowService.determineTaskState\<close>, taskWorkflow.js lines 31-117.\<close>

definition determineTaskState :: "int \<Rightarrow> client_task \<Rightarrow> task_state" where
  "determineTaskState now t =
     (let isExpired = isTaskExpired now t;
          hasDocuments = hasSubmittedDocuments t
      in if c_completed t then mk_state False False True False False
         else if c_pendingVerification t then mk_state False False False False True
         else if isExpired \<and> \<not> hasDocuments then mk_state False False False True False
         else if \<not> c_newTask t \<and> \<not> isExpired \<and> \<not> hasDocuments
           then mk_state False True False False False
         else if c_newTask t \<and> \<not> isExpired then mk_state True False False False False
         else if c_completed t then mk_state False False True False False
         else if c_pendingVerification t then mk_state False False False False True
         else if c_failed t then mk_state False False False True False
         else if c_active t then mk_state False True False False False
         else if c_newTask t then mk_state True False False False False
         else mk_state True False False False False)"

text \<open>\<^verbatim>\<open>TaskWorkflowService.acceptTask\<close>, taskWorkflow.js lines 124-137.\<close>

definition acceptTask :: "int \<Rightarrow> client_task \<Rightarrow> error + flag_state" where
  "acceptTask now t =
     (if isTaskExpired now t then Inl TaskExpired
      else Inr \<lparr>fs_newTask = False, fs_active = True, fs_completed = False, fs_failed = False\<rparr>)"

section \<open>The client's transition validator\<close>

text \<open>
  Reading a key of an object literal: the value of an own key, the value every
  object inherits from \<^verbatim>\<open>Object.prototype\<close> under its property names (a function,
  or the prototype itself: truthy, and no array), or \<^verbatim>\<open>undefined\<close>.
\<close>

datatype 'a js_lookup = Own 'a | Inherited | Missing

definition object_prototype_keys :: "string list" where
  "object_prototype_keys =
     [''constructor'', ''hasOwnProperty'', ''isPrototypeOf'', ''propertyIsEnumerable'',
      ''toLocaleString'', ''toString'', ''valueOf'', ''__proto__'', ''__defineGetter__'',
      ''__defineSetter__'', ''__lookupGetter__'', ''__lookupSetter__'']"

text \<open>\<^verbatim>\<open>ALLOWED_TRANSITIONS[k]\<close>, taskUtils.js lines 11-18.\<close>

definition ALLOWED_TRANSITIONS :: "string \<Rightarrow> string list js_lookup" where
  "ALLOWED_TRANSITIONS k =
     (if k = ''new'' then Own [''active'', ''failed'']
      else if k = ''active'' then Own [''pendingVerification'', ''failed'']
      else if k = ''pendingVerification'' then Own [''completed'', ''rejected'', ''failed'']
      else if k = ''rejected'' then Own [''pendingVerification'', ''failed'']
      else if k = ''completed'' then Own []
      else if k = ''failed'' then Own []
      else if k \<in> set object_prototype_keys then Inherited
      else Missing)"

text \<open>
  \<^verbatim>\<open>isValidTransition\<close>, taskUtils.js lines 26-32; the empty string is falsy. An
  inherited value is truthy, so \<^verbatim>\<open>|| []\<close> keeps it, and it has no \<^verbatim>\<open>includes\<close>:
  the call on line 31 throws a TypeError.
\<close>

definition isValidTransition :: "string \<Rightarrow> string \<Rightarrow> error + bool" where
  "isValidTransition currentStatus newStatus =
     (if currentStatus = [] then Inr False
      else if currentStatus = newStatus then Inr True
      else
        (case ALLOWED_TRANSITIONS currentStatus of
           Own allowedNextStates \<Rightarrow> Inr (newStatus \<in> set allowedNextStates)
         | Missing \<Rightarrow> Inr (newStatus \<in> set [])
         | Inherited \<Rightarrow> Inl TypeError))"

text \<open>\<^verbatim>\<open>getTaskStatus\<close>, taskUtils.js lines 39-71; \<open>None\<close> is a missing task.\<close>

definition getTaskStatus :: "int \<Rightarrow> client_task option \<Rightarrow> string" where
  "getTaskStatus now task =
     (case task of
        None \<Rightarrow> ''unknown''
      | Some t \<Rightarrow>
          (let isExpired = (case c_endDate t of None \<Rightarrow> False | Some e \<Rightarrow> now > e)
           in if c_completed t \<and> c_verificationStatus t = V_verified then ''completed''
              else if c_failed t \<or> (isExpired \<and> c_verificationStatus t \<noteq> V_verified)
                then ''failed''
              else if c_verificationStatus t = V_pending then ''pendingVerification''
              else if c_verificationStatus t = V_rejected then ''rejected''
              else if c_active t then ''active''
              else ''new''))"

definition truthy :: "string option \<Rightarrow> bool" where
  "truthy s = (case s of None \<Rightarrow> False | Some x \<Rightarrow> x \<noteq> [])"

text \<open>
  \<^verbatim>\<open>validateStatusUpdate\<close>, taskUtils.js lines 144-164: \<^verbatim>\<open>{isValid: true}\<close> is
  \<open>Inr ()\<close>; the reason \<^verbatim>\<open>Invalid status transition from X to Y\<close> is
  \<open>InvalidTransition X Y\<close>.
\<close>

definition validateStatusUpdate :: "int \<Rightarrow> client_task \<Rightarrow> string \<Rightarrow> error + unit" where
  "validateStatusUpdate now t newStatus =
     (let currentStatus = getTaskStatus now (Some t)
      in case isValidTransition currentStatus newStatus of
           Inl err \<Rightarrow> Inl err
         | Inr ok \<Rightarrow>
             if \<not> ok then Inl (InvalidTransition currentStatus newStatus)
             else if newStatus = ''pendingVerification'' \<and> \<not> truthy (c_documentUrl t)
             then Inl NoDocument
             else Inr ())"

section \<open>The client's status helper\<close>

text \<open>
  \<^verbatim>\<open>handleStatusUpdate\<close> up to the call of the API: its checks and the update
  payload it builds. \<open>validTransitions\<close> is its own table (lines 18-23); on an
  inherited value \<^verbatim>\<open>validTransitions[status].includes\<close> (line 26) throws a TypeError.
\<close>

definition validTransitions :: "string \<Rightarrow> string list js_lookup" where
  "validTransitions k =
     (if k = ''new'' then Own [''active'']
      else if k = ''active'' then Own [''pendingVerification'', ''failed'']
      else if k = ''pendingVerification'' then Own [''completed'', ''rejected'']
      else if k = ''rejected'' then Own [''active'', ''failed'']
      else if k \<in> set object_prototype_keys then Inherited
      else Missing)"

datatype payload_field =
    P_updatedAt int
  | P_status string
  | P_newTask bool
  | P_active bool
  | P_completed bool
  | P_failed bool
  | P_verificationStatus vstatus
  | P_time string int

definition handleStatusUpdate :: "int \<Rightarrow> client_task \<Rightarrow> string \<Rightarrow> error + payload_field list" where
  "handleStatusUpdate now t newStatus =
     (if \<not> truthy (c_id t) then Inl NoTaskId
      else if c_completed t \<or> c_failed t
        then Inl (TerminalState (if c_completed t then ''completed'' else ''failed''))
      else if validTransitions (c_status t) = Inherited then Inl TypeError
      else if (case validTransitions (c_status t) of
                 Own l \<Rightarrow> newStatus \<notin> set l | _ \<Rightarrow> False)
        then Inl (InvalidTransition (c_status t) newStatus)
      else if newStatus = ''active'' then
        Inr [P_updatedAt now, P_status ''active'', P_newTask False, P_active True,
             P_time ''startedAt'' now]
      else if newStatus = ''pendingVerification'' then
        (if \<not> truthy (c_documentUrl t) then Inl NoDocument
         else Inr [P_updatedAt now, P_status ''pendingVerification'',
                   P_verificationStatus V_pending, P_time ''submittedAt'' now])
      else if newStatus = ''completed'' then
        (if c_verificationStatus t \<noteq> V_pending
         then Inl (OnlyPendingCanComplete (c_verificationStatus t))
         else Inr [P_updatedAt now, P_status ''completed'', P_verificationStatus V_approved,
                   P_active False, P_completed True, P_time ''completedAt'' now,
                   P_time ''verifiedAt'' now])
      else if newStatus = ''rejected'' then
        Inr [P_updatedAt now, P_status ''rejected'', P_verificationStatus V_rejected,
             P_active False, P_time ''rejectedAt'' now]
      else if newStatus = ''failed'' then
        Inr [P_updatedAt now, P_status ''failed'', P_verificationStatus V_expired,
             P_active False, P_failed True, P_time ''failedAt'' now]
      else Inl (UnhandledStatus newStatus))"

section \<open>Properties and sample data\<close>

text \<open>Exactly one of the four lifecycle flags is set.\<close>

definition exactly_one :: "task \<Rightarrow> bool" where
  "exactly_one t = (trueStates t = 1)"

text \<open>No flag is set and the task waits for the admin's decision.\<close>

definition awaiting_review :: "task \<Rightarrow> bool" where
  "awaiting_review t = (trueStates t = 0 \<and> verificationStatus t = V_pending)"

definition lifecycle_ok :: "task \<Rightarrow> bool" where
  "lifecycle_ok t = (exactly_one t \<or> awaiting_review t)"

text \<open>An update of the body that writes no lifecycle flag and no verification status.\<close>

fun flag_free :: "field_update \<Rightarrow> bool" where
  "flag_free (Set_newTask _) = False"
| "flag_free (Set_active _) = False"
| "flag_free (Set_completed _) = False"
| "flag_free (Set_failed _) = False"
| "flag_free (Set_verificationStatus _) = False"
| "flag_free _ = True"

text \<open>How many of the five fields of a resolved state are set.\<close>

definition trueStates5 :: "task_state \<Rightarrow> nat" where
  "trueStates5 s =
     length (filter (\<lambda>b. b)
       [fs_newTask s, fs_active s, fs_completed s, fs_failed s, fs_pendingVerification s])"

text \<open>
  The legal table as the specification writes it, and what it accepts: a pair of
  the table or a same-status no-op.
\<close>

definition task_statuses :: "string list" where
  "task_statuses =
     [''new'', ''active'', ''pendingVerification'', ''rejected'', ''completed'', ''failed'']"

definition legal_table :: "(string \<times> string) list" where
  "legal_table =
     [(''new'', ''active''), (''new'', ''failed''),
      (''active'', ''pendingVerification''), (''active'', ''failed''),
      (''pendingVerification'', ''completed''), (''pendingVerification'', ''rejected''),
      (''pendingVerification'', ''failed''),
      (''rejected'', ''pendingVerification''), (''rejected'', ''failed'')]"

definition spec_accepts :: "string \<Rightarrow> string \<Rightarrow> bool" where
  "spec_accepts current target = (current = target \<or> (current, target) \<in> set legal_table)"

text \<open>The table of the status helper, pair by pair, and the statuses it has a row for.\<close>

definition helper_statuses :: "string list" where
  "helper_statuses = [''new'', ''active'', ''pendingVerification'', ''rejected'']"

definition helper_table :: "(string \<times> string) list" where
  "helper_table =
     [(''new'', ''active''),
      (''active'', ''pendingVerification''), (''active'', ''failed''),
      (''pendingVerification'', ''completed''), (''pendingVerification'', ''rejected''),
      (''rejected'', ''active''), (''rejected'', ''failed'')]"

text \<open>The four lifecycle flags of a task: \<open>newTask\<close>, \<open>active\<close>, \<open>completed\<close>, \<open>failed\<close>.\<close>

definition flags_of :: "task \<Rightarrow> bool \<times> bool \<times> bool \<times> bool" where
  "flags_of t = (newTask t, active t, completed t, failed t)"

text \<open>
  A task as the assignment route creates it (admin.js lines 473-488): new, nothing
  else set, no verification status.
\<close>

definition created_task :: "nat \<Rightarrow> int \<Rightarrow> task" where
  "created_task i deadline =
     \<lparr>task_id = i, status = S_new, newTask = True, active = False, completed = False,
      failed = False, verificationStatus = V_empty, endDate = Some deadline,
      submittedDocuments = [], updatedAt = None, submittedAt = None, verifiedAt = None,
      verifiedBy = None, rejectedAt = None, rejectedBy = None, rejectionReason = None,
      verificationNote = [], verificationDate = None\<rparr>"

definition sample_upload :: "string \<Rightarrow> upload" where
  "sample_upload n =
     \<lparr>up_filename = n, up_originalname = n, up_mimetype = ''application/pdf'', up_size = 10\<rparr>"

definition no_counts :: task_counts where
  "no_counts = \<lparr>active_count = 0, newTask_count = 0, completed_count = 0, failed_count = 0\<rparr>"

text \<open>An accepted task: active, deadline at 1000.\<close>

definition active_task :: task where
  "active_task = (created_task 1 1000)\<lparr>newTask := False, active := True, status := S_active\<rparr>"

text \<open>The accepted task after its first document went through the documents route at time 10.\<close>

definition submitted_task :: task where
  "submitted_task =
     active_task\<lparr>submittedDocuments := [document_of 10 (sample_upload ''a.pdf'')],
       status := S_pendingVerification, verificationStatus := V_pending\<rparr>"

text \<open>A task under review as the update route leaves it: no flag set, pending.\<close>

definition pending_task :: task where
  "pending_task =
     submitted_task\<lparr>active := False\<rparr>"

text \<open>An approved task: completed, deadline at 1000.\<close>

definition completed_task :: task where
  "completed_task =
     pending_task\<lparr>completed := True, verificationStatus := V_approved, status := S_completed,
       verifiedAt := Some 20, verifiedBy := Some ''system''\<rparr>"

definition sample_client_task :: client_task where
  "sample_client_task =
     \<lparr>c_id = Some ''t1'', c_status = ''active'', c_newTask = False, c_active = True,
      c_completed = False, c_failed = False, c_pendingVerification = False,
      c_verificationStatus = V_empty, c_endDate = Some 1000, c_submittedDocuments = Some [],
      c_documentUrl = None\<rparr>"

text \<open>The client's view of a task that was never accepted, and of one under review.\<close>

definition new_client_task :: client_task where
  "new_client_task =
     sample_client_task\<lparr>c_status := ''new'', c_active := False, c_newTask := True\<rparr>"

definition pending_client_task :: client_task where
  "pending_client_task =
     sample_client_task\<lparr>c_status := ''pendingVerification'', c_active := False,
       c_verificationStatus := V_pending,
       c_submittedDocuments := Some [document_of 10 (sample_upload ''a.pdf'')]\<rparr>"

text \<open>A store with one admin, one employee (id 7) and one task (id 1), counters in step.\<close>

definition sample_employee :: "task \<Rightarrow> employee" where
  "sample_employee t = updateTaskCounts \<lparr>emp_id = 7, tasks = [t], taskCounts = no_counts\<rparr>"

definition db_with :: "task \<Rightarrow> admin list" where
  "db_with t = [\<lparr>admin_id = 1, employees = [sample_employee t]\<rparr>]"

definition tasks_in :: "admin list \<Rightarrow> task list" where
  "tasks_in db = concat (map tasks (concat (map employees db)))"

text \<open>The task a request leaves stored: on an error nothing is saved.\<close>

definition task_after :: "task \<Rightarrow> error + task_counts \<times> task \<Rightarrow> task" where
  "task_after t r = (case r of Inl _ \<Rightarrow> t | Inr (c, t') \<Rightarrow> t')"

text \<open>A task the sweep has nothing to do with at the time \<open>now\<close>.\<close>

definition settled :: "int \<Rightarrow> task \<Rightarrow> bool" where
  "settled now t = (completed t \<or> failed t \<or> \<not> endDate_before (endDate t) now)"

section \<open>The lookups of a route\<close>

lemma update_first_find:
  "find p xs = Some x \<Longrightarrow>
   update_first p f e xs = (case f x of Inl err \<Rightarrow> Inl err | Inr y \<Rightarrow> Inr (replace_first p y xs))"
proof (induction xs)
  case Nil
  then show ?case by simp
next
  case (Cons a xs)
  show ?case
  proof (cases "p a")
    case True
    with Cons.prems show ?thesis by (simp split: sum.splits)
  next
    case False
    with Cons.prems have "find p xs = Some x" by simp
    with Cons.IH False show ?thesis by (simp split: sum.splits)
  qed
qed

lemma find_replace_first:
  "find p xs = Some x \<Longrightarrow> p y \<Longrightarrow> find p (replace_first p y xs) = Some y"
  by (induction xs) auto

lemma find_Some_holds: "find p xs = Some x \<Longrightarrow> p x \<and> x \<in> set xs"
  by (induction xs) (auto split: if_splits)

lemma on_task_found:
  assumes "find (\<lambda>t. task_id t = taskId) (tasks e) = Some t"
  shows "on_task taskId f e =
     (case f (taskCounts e) t of
        Inl err \<Rightarrow> Inl err
      | Inr (c, t') \<Rightarrow> Inr (e\<lparr>tasks := replace_first (\<lambda>t. task_id t = taskId) t' (tasks e), taskCounts := c\<rparr>))"
  using assms by (simp add: on_task_def)

lemma on_employee_found:
  assumes "lookup_employee employeeId db = Some e"
  shows "(g e = Inl err \<longrightarrow> on_employee employeeId g db = Inl err)
       \<and> (g e = Inr e' \<and> emp_id e' = employeeId \<longrightarrow>
            (\<exists>db'. on_employee employeeId g db = Inr db' \<and> lookup_employee employeeId db' = Some e'))"
proof -
  let ?P = "\<lambda>a. list_ex (\<lambda>e. emp_id e = employeeId) (employees a)"
  let ?Q = "\<lambda>e. emp_id e = employeeId"
  from assms obtain a where a: "find ?P db = Some a" and e: "find ?Q (employees a) = Some e"
    by (auto simp: lookup_employee_def split: option.splits)
  have step: "on_employee employeeId g db =
      (case (case update_first ?Q g EmployeeNotFound (employees a) of
               Inl err \<Rightarrow> Inl err | Inr es \<Rightarrow> Inr (a\<lparr>employees := es\<rparr>)) of
         Inl err \<Rightarrow> Inl err | Inr y \<Rightarrow> Inr (replace_first ?P y db))"
    unfolding on_employee_def by (rule update_first_find[OF a])
  have inner: "update_first ?Q g EmployeeNotFound (employees a) =
      (case g e of Inl err \<Rightarrow> Inl err | Inr y \<Rightarrow> Inr (replace_first ?Q y (employees a)))"
    by (rule update_first_find[OF e])
  show ?thesis
  proof (intro conjI impI)
    assume "g e = Inl err"
    with step inner show "on_employee employeeId g db = Inl err" by simp
  next
    assume h: "g e = Inr e' \<and> emp_id e' = employeeId"
    let ?es = "replace_first ?Q e' (employees a)"
    let ?a' = "a\<lparr>employees := ?es\<rparr>"
    from h step inner have r: "on_employee employeeId g db = Inr (replace_first ?P ?a' db)"
      by simp
    from h e have fe: "find ?Q ?es = Some e'" by (simp add: find_replace_first)
    then have "e' \<in> set ?es" by (simp add: find_Some_holds)
    with h have "?P ?a'" by (auto simp: list_ex_iff)
    with a have "find ?P (replace_first ?P ?a' db) = Some ?a'" by (simp add: find_replace_first)
    with fe have "lookup_employee employeeId (replace_first ?P ?a' db) = Some e'"
      by (simp add: lookup_employee_def)
    with r show "\<exists>db'. on_employee employeeId g db = Inr db' \<and> lookup_employee employeeId db' = Some e'"
      by blast
  qed
qed

lemma lookup_employee_id: "lookup_employee employeeId db = Some e \<Longrightarrow> emp_id e = employeeId"
  by (auto simp: lookup_employee_def split: option.splits dest: find_Some_holds)

lemma route_step:
  assumes "lookup_employee employeeId db = Some e"
    and "find (\<lambda>t. task_id t = taskId) (tasks e) = Some t"
  shows "(f (taskCounts e) t = Inl err \<longrightarrow>
            on_employee employeeId (on_task taskId f) db = Inl err)
       \<and> (f (taskCounts e) t = Inr (c', t') \<and> task_id t' = taskId \<longrightarrow>
            (\<exists>db'. on_employee employeeId (on_task taskId f) db = Inr db'
               \<and> lookup_task employeeId taskId db' = Some t'))"
proof (intro conjI impI)
  assume "f (taskCounts e) t = Inl err"
  then have "on_task taskId f e = Inl err" by (simp add: on_task_found[OF assms(2)])
  with on_employee_found[OF assms(1)] show "on_employee employeeId (on_task taskId f) db = Inl err"
    by blast
next
  assume h: "f (taskCounts e) t = Inr (c', t') \<and> task_id t' = taskId"
  let ?e' = "e\<lparr>tasks := replace_first (\<lambda>t. task_id t = taskId) t' (tasks e), taskCounts := c'\<rparr>"
  from h have 1: "on_task taskId f e = Inr ?e'" by (simp add: on_task_found[OF assms(2)])
  have 2: "emp_id ?e' = employeeId" using lookup_employee_id[OF assms(1)] by simp
  from on_employee_found[OF assms(1), of "on_task taskId f" err ?e'] 1 2
  obtain db' where db': "on_employee employeeId (on_task taskId f) db = Inr db'"
    and l: "lookup_employee employeeId db' = Some ?e'" by blast
  from h assms(2) have "find (\<lambda>t. task_id t = taskId) (tasks ?e') = Some t'"
    by (simp add: find_replace_first)
  with l have "lookup_task employeeId taskId db' = Some t'" by (simp add: lookup_task_def)
  with db' show "\<exists>db'. on_employee employeeId (on_task taskId f) db = Inr db'
               \<and> lookup_task employeeId taskId db' = Some t'" by blast
qed

lemma verify_task_id: "verify_task st r n a now c t = Inr (c', t') \<Longrightarrow> task_id t' = task_id t"
  by (auto simp: verify_task_def split: if_splits)

section \<open>The flags after each operation\<close>

lemma flags_foldl:
  "list_all flag_free us \<Longrightarrow>
     newTask (foldl apply_update t us) = newTask t \<and>
     active (foldl apply_update t us) = active t \<and>
     completed (foldl apply_update t us) = completed t \<and>
     failed (foldl apply_update t us) = failed t \<and>
     verificationStatus (foldl apply_update t us) = verificationStatus t"
proof (induction us arbitrary: t)
  case Nil
  then show ?case by simp
next
  case (Cons u us)
  then show ?case by (cases u) simp_all
qed

lemma lifecycle_foldl:
  "list_all flag_free us \<Longrightarrow> lifecycle_ok (foldl apply_update t us) = lifecycle_ok t"
  using flags_foldl[of us t]
  by (simp add: lifecycle_ok_def exactly_one_def awaiting_review_def trueStates_def)

lemma updateTaskState_ok: "lifecycle_ok t \<Longrightarrow> lifecycle_ok (updateTaskState t now)"
  by (auto simp: lifecycle_ok_def exactly_one_def awaiting_review_def trueStates_def
      updateTaskState_def Let_def split: if_splits)

lemma upload_document_ok:
  "lifecycle_ok t \<Longrightarrow> upload_document f now c t = Inr (c', t') \<Longrightarrow> lifecycle_ok t'"
  by (auto simp: lifecycle_ok_def exactly_one_def awaiting_review_def trueStates_def
      upload_document_def Let_def split: if_splits)

lemma verify_task_ok:
  "lifecycle_ok t \<Longrightarrow> verify_task st r n a now c t = Inr (c', t') \<Longrightarrow> lifecycle_ok t'"
  by (auto simp: lifecycle_ok_def exactly_one_def awaiting_review_def trueStates_def
      verify_task_def Let_def split: if_splits)

lemma put_files_ok: "lifecycle_ok t \<Longrightarrow> lifecycle_ok (snd (put_files fs now c t))"
  by (auto simp: lifecycle_ok_def exactly_one_def awaiting_review_def trueStates_def
      put_files_def Let_def split: if_splits)

lemma put_status_exactly_one:
  "put_status st a n now c t = Inr (c', t') \<Longrightarrow> exactly_one t'"
  by (auto simp: exactly_one_def trueStates_def put_status_def Let_def split: if_splits)

lemma put_task_ok:
  assumes "lifecycle_ok t" and "list_all flag_free us"
    and "put_task st us fs a n now now2 c t = Inr (c', t')"
  shows "lifecycle_ok t'"
proof -
  from assms(3) obtain c1 t1 where
    s: "(if fs \<noteq> [] then Inr (put_files fs now c t)
         else (case st of None \<Rightarrow> Inr (c, t)
               | Some s \<Rightarrow> if s = [] then Inr (c, t) else put_status s a n now c t))
        = Inr (c1, t1)"
    and t': "t' = updateTaskState (foldl apply_update t1 us) now2"
    by (auto simp: put_task_def split: sum.splits)
  have "lifecycle_ok t1"
  proof (cases "fs \<noteq> []")
    case True
    with s have "t1 = snd (put_files fs now c t)" by (metis Inr_inject snd_conv)
    with assms(1) show ?thesis by (simp add: put_files_ok)
  next
    case False
    with s assms(1) show ?thesis
      by (auto simp: lifecycle_ok_def split: option.splits if_splits
          dest: put_status_exactly_one)
  qed
  with assms(2) t' show ?thesis by (simp add: updateTaskState_ok lifecycle_foldl)
qed

lemma fix_task_ok: "lifecycle_ok t \<Longrightarrow> fix_task t = t"
  by (auto simp: lifecycle_ok_def exactly_one_def awaiting_review_def fix_task_def)

lemma sweep_task_ok:
  "lifecycle_ok t \<Longrightarrow> \<not> newTask t \<Longrightarrow> lifecycle_ok (snd (sweep_task now cn t))"
  by (auto simp: lifecycle_ok_def exactly_one_def awaiting_review_def trueStates_def
      sweep_task_def Let_def split: if_splits)

lemma task_after_ok:
  assumes "lifecycle_ok t" and "\<And>c' t'. r = Inr (c', t') \<Longrightarrow> lifecycle_ok t'"
  shows "lifecycle_ok (task_after t r)"
  using assms by (cases r) (auto simp: task_after_def)

text \<open>
  C1 (amended). Let a task have exactly one of the flags \<open>newTask\<close>, \<open>active\<close>,
  \<open>completed\<close>, \<open>failed\<close> set, or none of them with \<open>verificationStatus = pending\<close>
  (the task awaits review). Then the same holds of the task after the state
  update, after an evidence upload, after verify/reject, after the update route
  (accept, status change or files, the body writing no flag and no verification
  status itself) and after the cleanup script; and after the expiration sweep when
  the task is not a new one. Exactly one flag is thus not guaranteed: a task under
  review carries none.
\<close>

theorem C1_flags_after_mutation:
  assumes "lifecycle_ok t" and "list_all flag_free updateData"
  shows "lifecycle_ok (updateTaskState t now)
    \<and> lifecycle_ok (task_after t (upload_document f now c t))
    \<and> lifecycle_ok (task_after t (verify_task st reason note adminId now c t))
    \<and> lifecycle_ok (task_after t
          (put_task pst updateData files adminId note now stateTime c t))
    \<and> lifecycle_ok (fix_task t)
    \<and> (\<not> newTask t \<longrightarrow> lifecycle_ok (snd (sweep_task now cn t)))"
proof -
  have 1: "lifecycle_ok (updateTaskState t now)"
    using assms(1) by (rule updateTaskState_ok)
  have 2: "lifecycle_ok (task_after t (upload_document f now c t))"
    using assms(1) by (rule task_after_ok) (rule upload_document_ok[OF assms(1)])
  have 3: "lifecycle_ok (task_after t (verify_task st reason note adminId now c t))"
    using assms(1) by (rule task_after_ok) (rule verify_task_ok[OF assms(1)])
  have 4: "lifecycle_ok (task_after t
      (put_task pst updateData files adminId note now stateTime c t))"
    using assms(1) by (rule task_after_ok) (rule put_task_ok[OF assms])
  have 5: "lifecycle_ok (fix_task t)"
    using assms(1) by (simp add: fix_task_ok)
  have 6: "\<not> newTask t \<longrightarrow> lifecycle_ok (snd (sweep_task now cn t))"
    using assms(1) by (simp add: sweep_task_ok)
  from 1 2 3 4 5 6 show ?thesis by blast
qed

lemmas sample_defs = submitted_task_def active_task_def created_task_def pending_task_def
  completed_task_def sample_upload_def no_counts_def document_of_def

theorem C1_flags_after_mutation_witness:
  "lifecycle_ok submitted_task
   \<and> list_all flag_free [Set_endDate (Some 2000)]
   \<and> lifecycle_ok (updateTaskState submitted_task 20)
   \<and> lifecycle_ok (task_after submitted_task
        (upload_document (sample_upload ''b.pdf'') 20 no_counts submitted_task))
   \<and> lifecycle_ok (task_after submitted_task
        (verify_task ''rejected'' None None ''system'' 20 no_counts submitted_task))
   \<and> lifecycle_ok (task_after submitted_task
        (put_task (Some ''active'') [Set_endDate (Some 2000)] [] ''system'' None 20 21
           no_counts submitted_task))
   \<and> lifecycle_ok (fix_task submitted_task)
   \<and> \<not> newTask submitted_task
   \<and> lifecycle_ok (snd (sweep_task 20 (no_counts, 0) submitted_task))"
proof -
  have h1: "lifecycle_ok submitted_task"
    by (simp add: lifecycle_ok_def exactly_one_def trueStates_def sample_defs)
  have h2: "list_all flag_free [Set_endDate (Some 2000)]" by simp
  have h3: "\<not> newTask submitted_task" by (simp add: sample_defs)
  from C1_flags_after_mutation[OF h1 h2, of 20 "sample_upload ''b.pdf''" no_counts
      "''rejected''" None None "''system''" "Some ''active''" "[]" 21 "(no_counts, 0)"] h1 h2 h3
  show ?thesis by blast
qed

text \<open>
  The claim as stated fails: an accepted task whose document went through the
  documents route has \<open>active\<close> set and \<open>verificationStatus = pending\<close>; the state
  update then clears all four flags.
\<close>

theorem C1_counterexample:
  "exactly_one submitted_task \<and> \<not> exactly_one (updateTaskState submitted_task 20)"
  by (simp add: exactly_one_def trueStates_def updateTaskState_def endDate_before_def
      sample_defs)

text \<open>
  The sweep on a task that was never accepted: \<open>failed\<close> is set and \<open>newTask\<close> is
  not cleared (lines 829-831 write \<open>active\<close>, \<open>completed\<close> and \<open>failed\<close> only), so
  two flags are set afterwards. The theorem above leaves this case out.
\<close>

lemma sweep_task_keeps_newTask:
  "newTask (snd (sweep_task 2000 (no_counts, 0) (created_task 1 1000)))
   \<and> failed (snd (sweep_task 2000 (no_counts, 0) (created_task 1 1000)))"
  by (simp add: sweep_task_def endDate_before_def created_task_def)

section \<open>The counters\<close>

lemma no_flag_iff:
  "(trueStates t = 0) = (\<not> newTask t \<and> \<not> active t \<and> \<not> completed t \<and> \<not> failed t)"
  by (simp add: trueStates_def)

lemma buckets_partition:
  "length (filter (\<lambda>t. newTask t \<and> \<not> active t \<and> \<not> completed t \<and> \<not> failed t) ts)
   + length (filter (\<lambda>t. active t \<and> \<not> completed t \<and> \<not> failed t) ts)
   + length (filter (\<lambda>t. completed t) ts)
   + length (filter (\<lambda>t. failed t \<and> \<not> completed t) ts)
   + length (filter (\<lambda>t. trueStates t = 0) ts) = length ts"
  by (induction ts) (auto simp: no_flag_iff)

text \<open>
  C3 (amended). After \<open>updateTaskCounts\<close> the four bucket counts and the number of
  tasks with no flag set add up to the number of tasks: the buckets alone sum to
  the number of tasks that have some flag set, and a task under review (no flag)
  is in no bucket.
\<close>

theorem C3_counts_and_flagless:
  "sum_counts (taskCounts (updateTaskCounts e))
     + int (length (filter (\<lambda>t. trueStates t = 0) (tasks e)))
   = int (length (tasks e))"
  using buckets_partition[of "tasks e"]
  by (simp add: updateTaskCounts_def sum_counts_def del: of_nat_add add: of_nat_add[symmetric])

text \<open>The claim as stated fails on an employee whose only task is under review.\<close>

theorem C3_counterexample:
  "sum_counts (taskCounts (updateTaskCounts
       \<lparr>emp_id = 1, tasks = [pending_task], taskCounts = no_counts\<rparr>)) = 0
   \<and> length (tasks \<lparr>emp_id = 1, tasks = [pending_task], taskCounts = no_counts\<rparr>) = 1"
  by (simp add: updateTaskCounts_def sum_counts_def sample_defs)

section \<open>The sweep run twice\<close>

lemma settled_no_query: "settled now t \<Longrightarrow> \<not> sweep_query now t"
  by (auto simp: settled_def sweep_query_def)

lemma sweep_task_settled: "settled now (snd (sweep_task now cn t))"
  by (simp add: settled_def sweep_task_def Let_def)

lemma sweep_tasks_settled: "list_all (settled now) (snd (sweep_tasks now cn ts))"
proof (induction ts arbitrary: cn)
  case Nil
  then show ?case by simp
next
  case (Cons t ts)
  from Cons[of "fst (sweep_task now cn t)"] sweep_task_settled[of now cn t]
  show ?case by (auto split: prod.splits)
qed

lemma sweep_employee_settled:
  "list_all (settled now) (tasks (snd (sweep_employee now n e)))"
  using sweep_tasks_settled[of now "(taskCounts e, n)" "tasks e"]
  by (auto simp: sweep_employee_def split: prod.splits)

lemma sweep_employees_settled:
  "list_all (\<lambda>e. list_all (settled now) (tasks e)) (snd (sweep_employees now n es))"
proof (induction es arbitrary: n)
  case Nil
  then show ?case by simp
next
  case (Cons e es)
  from Cons[of "fst (sweep_employee now n e)"] sweep_employee_settled[of now n e]
  show ?case by (auto split: prod.splits)
qed

lemma settled_not_selected:
  "list_all (\<lambda>e. list_all (settled now) (tasks e)) (employees a) \<Longrightarrow> \<not> sweep_selects now a"
  by (auto simp: sweep_selects_def list_ex_iff list_all_iff dest: settled_no_query)

lemma sweep_admins_unselected:
  "list_all (\<lambda>a. \<not> sweep_selects now a) (snd (sweep_admins now n db))"
proof (induction db arbitrary: n)
  case Nil
  then show ?case by simp
next
  case (Cons a db)
  show ?case
  proof (cases "sweep_selects now a")
    case True
    from sweep_employees_settled[of now n "employees a"]
    have "\<not> sweep_selects now (a\<lparr>employees := snd (sweep_employees now n (employees a))\<rparr>)"
      by (simp add: settled_not_selected)
    with True Cons[of "fst (sweep_employees now n (employees a))"] show ?thesis
      by (auto split: prod.splits)
  next
    case False
    with Cons[of n] show ?thesis by (auto split: prod.splits)
  qed
qed

lemma sweep_admins_idle:
  "list_all (\<lambda>a. \<not> sweep_selects now a) db \<Longrightarrow> sweep_admins now n db = (n, db)"
  by (induction db) simp_all

text \<open>
  C7. The sweep is idempotent: run again at the same time on the admins the first
  run stored, it reports \<open>updatedCount = 0\<close> and stores the same admins, so no task
  and no counter changes.
\<close>

theorem C7_sweep_idempotent:
  "sweepExpired now (snd (sweepExpired now db)) = (0, snd (sweepExpired now db))"
  unfolding sweepExpired_def
  by (rule sweep_admins_idle) (rule sweep_admins_unselected)

section \<open>The client's resolved state\<close>

text \<open>
  C10. For every task object and every time, \<open>determineTaskState\<close> returns a state
  in which exactly one of the five fields \<open>newTask\<close>, \<open>active\<close>, \<open>completed\<close>,
  \<open>failed\<close>, \<open>pendingVerification\<close> is set.
\<close>

theorem C10_determineTaskState_exclusive:
  "trueStates5 (determineTaskState now t) = 1"
  by (simp add: determineTaskState_def mk_state_def trueStates5_def Let_def)

section \<open>A pending review and the deadline\<close>




section \<open>The transition tables\<close>

lemma getTaskStatus_range: "getTaskStatus now (Some t) \<in> set task_statuses"
  by (simp add: getTaskStatus_def task_statuses_def Let_def)

lemma task_statuses_own:
  "c \<in> set task_statuses \<Longrightarrow> c \<noteq> [] \<and> c \<notin> set object_prototype_keys"
  by (auto simp: task_statuses_def object_prototype_keys_def)

lemma isValidTransition_table:
  "c \<noteq> [] \<Longrightarrow> c \<notin> set object_prototype_keys \<Longrightarrow>
     isValidTransition c n = Inr (spec_accepts c n)"
  by (auto simp: isValidTransition_def ALLOWED_TRANSITIONS_def spec_accepts_def
      legal_table_def)

lemma validateStatusUpdate_table:
  "validateStatusUpdate now t n =
     (if \<not> spec_accepts (getTaskStatus now (Some t)) n
      then Inl (InvalidTransition (getTaskStatus now (Some t)) n)
      else if n = ''pendingVerification'' \<and> \<not> truthy (c_documentUrl t) then Inl NoDocument
      else Inr ())"
  using task_statuses_own[OF getTaskStatus_range[of now t]]
  by (simp add: validateStatusUpdate_def Let_def isValidTransition_table)

lemma handleStatusUpdate_table:
  assumes "truthy (c_id t)" and "\<not> c_completed t" and "\<not> c_failed t"
    and "c_status t \<in> set helper_statuses"
  shows "(handleStatusUpdate now t n = Inl (InvalidTransition (c_status t) n))
           = ((c_status t, n) \<notin> set helper_table)"
  using assms
  by (auto simp: handleStatusUpdate_def validTransitions_def helper_statuses_def
      helper_table_def)

text \<open>
  C4 (amended). The validator of taskUtils.js accepts exactly the legal table plus
  the same-status no-op: for every current status that is a non-empty string and
  no property name every object inherits (there line 31 throws), \<open>isValidTransition\<close>
  answers true exactly when the pair is in the table or the target is the current
  status; \<open>validateStatusUpdate\<close>, whose current status is always one of the six,
  returns the invalid-transition error carrying the pair exactly for the targets
  not accepted. The status helper \<open>handleStatusUpdate\<close> checks a table of its own:
  for a task with an id that is neither completed nor failed and whose status is
  \<open>new\<close>, \<open>active\<close>, \<open>pendingVerification\<close> or \<open>rejected\<close>, it returns the
  invalid-transition error carrying the pair exactly for the pairs outside
  new \<open>\<rightarrow>\<close> active; active \<open>\<rightarrow>\<close> pendingVerification, failed; pendingVerification
  \<open>\<rightarrow>\<close> completed, rejected; rejected \<open>\<rightarrow>\<close> active, failed, with no same-status no-op.
\<close>

theorem C4_transition_tables:
  "(c \<noteq> [] \<and> c \<notin> set object_prototype_keys \<longrightarrow>
      isValidTransition c n = Inr (spec_accepts c n))
   \<and> getTaskStatus now (Some t) \<in> set task_statuses
   \<and> ((validateStatusUpdate now t n
          = Inl (InvalidTransition (getTaskStatus now (Some t)) n))
        = (\<not> spec_accepts (getTaskStatus now (Some t)) n))
   \<and> (truthy (c_id t) \<and> \<not> c_completed t \<and> \<not> c_failed t
        \<and> c_status t \<in> set helper_statuses \<longrightarrow>
        (handleStatusUpdate now t n = Inl (InvalidTransition (c_status t) n))
          = ((c_status t, n) \<notin> set helper_table))"
proof -
  have 1: "c \<noteq> [] \<and> c \<notin> set object_prototype_keys \<longrightarrow>
      isValidTransition c n = Inr (spec_accepts c n)"
    by (simp add: isValidTransition_table)
  have 2: "getTaskStatus now (Some t) \<in> set task_statuses"
    by (rule getTaskStatus_range)
  have 3: "(validateStatusUpdate now t n
          = Inl (InvalidTransition (getTaskStatus now (Some t)) n))
        = (\<not> spec_accepts (getTaskStatus now (Some t)) n)"
    by (simp add: validateStatusUpdate_table)
  have 4: "truthy (c_id t) \<and> \<not> c_completed t \<and> \<not> c_failed t
        \<and> c_status t \<in> set helper_statuses \<longrightarrow>
        (handleStatusUpdate now t n = Inl (InvalidTransition (c_status t) n))
          = ((c_status t, n) \<notin> set helper_table)"
    using handleStatusUpdate_table[of t now n] by blast
  from 1 2 3 4 show ?thesis by blast
qed

theorem C4_transition_tables_witness:
  "''active'' \<noteq> [] \<and> ''active'' \<notin> set object_prototype_keys
   \<and> isValidTransition ''active'' ''pendingVerification'' = Inr True
   \<and> isValidTransition ''active'' ''completed'' = Inr False
   \<and> getTaskStatus 5 (Some sample_client_task) = ''active''
   \<and> validateStatusUpdate 5 sample_client_task ''completed''
        = Inl (InvalidTransition ''active'' ''completed'')
   \<and> truthy (c_id sample_client_task) \<and> \<not> c_completed sample_client_task
   \<and> \<not> c_failed sample_client_task \<and> c_status sample_client_task \<in> set helper_statuses
   \<and> (''active'', ''completed'') \<notin> set helper_table
   \<and> handleStatusUpdate 5 sample_client_task ''completed''
        = Inl (InvalidTransition ''active'' ''completed'')"
proof -
  have h1: "''active'' \<noteq> [] \<and> ''active'' \<notin> set object_prototype_keys"
    by (simp add: object_prototype_keys_def)
  have h2: "getTaskStatus 5 (Some sample_client_task) = ''active''"
    by (simp add: getTaskStatus_def sample_client_task_def)
  have h3: "\<not> spec_accepts ''active'' ''completed''"
    by (simp add: spec_accepts_def legal_table_def)
  have h4: "spec_accepts ''active'' ''pendingVerification''"
    by (simp add: spec_accepts_def legal_table_def)
  have h5: "truthy (c_id sample_client_task) \<and> \<not> c_completed sample_client_task
      \<and> \<not> c_failed sample_client_task \<and> c_status sample_client_task \<in> set helper_statuses"
    by (simp add: truthy_def sample_client_task_def helper_statuses_def)
  have h6: "c_status sample_client_task = ''active''" by (simp add: sample_client_task_def)
  have h7: "(''active'', ''completed'') \<notin> set helper_table" by (simp add: helper_table_def)
  from C4_transition_tables[of "''active''" "''completed''" 5 sample_client_task]
       C4_transition_tables[of "''active''" "''pendingVerification''" 5 sample_client_task]
       h1 h2 h3 h4 h5 h6 h7
  show ?thesis by simp
qed

text \<open>
  The claim as stated fails on the status helper: it refuses new \<open>\<rightarrow>\<close> failed, a
  pair of the legal table, and the same-status no-op active \<open>\<rightarrow>\<close> active.
\<close>

theorem C4_counterexample:
  "spec_accepts ''new'' ''failed''
   \<and> handleStatusUpdate 5 new_client_task ''failed''
       = Inl (InvalidTransition ''new'' ''failed'')
   \<and> spec_accepts ''active'' ''active''
   \<and> handleStatusUpdate 5 sample_client_task ''active''
       = Inl (InvalidTransition ''active'' ''active'')"
  by (simp add: handleStatusUpdate_def validTransitions_def truthy_def new_client_task_def
      sample_client_task_def spec_accepts_def legal_table_def)

section \<open>Terminal tasks\<close>

text \<open>
  C5 (amended). Let a task be completed or failed, with a \<open>verificationStatus\<close>
  other than \<open>pending\<close>. Then the state update and the sweep change none of its
  four flags, a review fails with the not-pending error, and an evidence upload
  through the documents route is accepted and changes no flag. Accepting it
  through the update route (\<^verbatim>\<open>status: 'active'\<close>, the request of the client's
  reopen button) is not refused: the task is stored with \<open>active\<close> alone set, or,
  when its end date has passed at the state update, with \<open>failed\<close> alone set.
\<close>

theorem C5_terminal_tasks:
  assumes "completed t \<or> failed t" and "verificationStatus t \<noteq> V_pending"
  shows "flags_of (updateTaskState t now) = flags_of t
    \<and> sweep_task now cn t = (cn, t)
    \<and> verify_task st reason note adminId now c t
        = Inl (NotPendingReview (verificationStatus t) (status t))
    \<and> (\<exists>t'. upload_document f now c t = Inr (c, t') \<and> flags_of t' = flags_of t)
    \<and> (\<exists>t'. put_task (Some ''active'') [] [] adminId note now stateTime c t = Inr (c, t')
          \<and> flags_of t'
              = (if endDate_before (endDate t) stateTime
                 then (False, False, False, True) else (False, True, False, False)))"
proof -
  have 1: "flags_of (updateTaskState t now) = flags_of t"
    using assms by (auto simp: flags_of_def updateTaskState_def Let_def)
  have 2: "sweep_task now cn t = (cn, t)"
    using assms(1) by (auto simp: sweep_task_def)
  have 3: "verify_task st reason note adminId now c t
        = Inl (NotPendingReview (verificationStatus t) (status t))"
    using assms(2) by (simp add: verify_task_def)
  have 4: "\<exists>t'. upload_document f now c t = Inr (c, t') \<and> flags_of t' = flags_of t"
    by (simp add: upload_document_def flags_of_def Let_def)
  have 5: "\<exists>t'. put_task (Some ''active'') [] [] adminId note now stateTime c t = Inr (c, t')
          \<and> flags_of t'
              = (if endDate_before (endDate t) stateTime
                 then (False, False, False, True) else (False, True, False, False))"
    by (simp add: put_task_def put_status_def put_status_label_def updateTaskState_def
        flags_of_def)
  from 1 2 3 4 5 show ?thesis by blast
qed

theorem C5_terminal_tasks_witness:
  "(completed completed_task \<or> failed completed_task)
   \<and> verificationStatus completed_task \<noteq> V_pending
   \<and> flags_of (updateTaskState completed_task 30) = flags_of completed_task
   \<and> sweep_task 2000 (no_counts, 0) completed_task = ((no_counts, 0), completed_task)
   \<and> verify_task ''rejected'' None None ''system'' 30 no_counts completed_task
       = Inl (NotPendingReview V_approved S_completed)
   \<and> (\<exists>t'. upload_document (sample_upload ''b.pdf'') 30 no_counts completed_task
               = Inr (no_counts, t')
        \<and> flags_of t' = flags_of completed_task)
   \<and> \<not> endDate_before (endDate completed_task) 31
   \<and> (\<exists>t'. put_task (Some ''active'') [] [] ''system'' None 30 31 no_counts completed_task
               = Inr (no_counts, t')
        \<and> flags_of t' = (False, True, False, False))"
proof -
  have h1: "completed completed_task \<or> failed completed_task" by (simp add: sample_defs)
  have h2: "verificationStatus completed_task \<noteq> V_pending" by (simp add: sample_defs)
  have h3: "\<not> endDate_before (endDate completed_task) 31"
    by (simp add: endDate_before_def sample_defs)
  have h4: "verificationStatus completed_task = V_approved \<and> status completed_task = S_completed"
    by (simp add: sample_defs)
  from C5_terminal_tasks[OF h1 h2, of 30 "(no_counts, 0)" "''rejected''" None None
        "''system''" no_counts "sample_upload ''b.pdf''" 31]
       C5_terminal_tasks[OF h1 h2, of 2000 "(no_counts, 0)" "''rejected''" None None
        "''system''" no_counts "sample_upload ''b.pdf''" 31] h1 h2 h3 h4
  show ?thesis by simp
qed

text \<open>
  The claim as stated fails: a completed task (approved, deadline 1000) receives
  the update route's request \<^verbatim>\<open>{status: 'active'}\<close> at time 30; the route answers
  without an error and stores the task with \<open>active\<close> set and \<open>completed\<close> cleared.
  The documents route, too, answers a completed task without an error.
\<close>

theorem C5_counterexample:
  "completed completed_task \<and> \<not> active completed_task
   \<and> (\<exists>db'. put_route (Some ''active'') [] [] ''system'' None 30 31 7 1
                (db_with completed_task) = Inr db'
        \<and> tasks_in db'
            = [completed_task\<lparr>active := True, completed := False,
                 verificationStatus := V_empty, status := S_active\<rparr>])
   \<and> (\<exists>db'. documents_route (Some (sample_upload ''b.pdf'')) 30 7 1
                (db_with completed_task) = Inr db')"
  by (simp add: put_route_def documents_route_def on_employee_def on_task_def db_with_def
      tasks_in_def put_task_def put_status_def put_status_label_def updateTaskState_def
      upload_document_def endDate_before_def updateTaskCounts_def sample_employee_def
      sample_defs)

section \<open>Rejection and resubmission\<close>

text \<open>
  C6 (the code at the failing input). An accepted task submits \<^verbatim>\<open>a.pdf\<close> through the
  documents route, the admin rejects it, the employee submits \<^verbatim>\<open>b.pdf\<close> through the
  documents route. After the rejection the task is active with
  \<open>verificationStatus = rejected\<close>; after the resubmission the evidence list holds
  both documents, but \<open>verificationStatus\<close> is still \<open>rejected\<close> and the task still
  active: verify left \<open>status\<close> at \<^verbatim>\<open>pendingVerification\<close>, and the documents route
  sets \<open>pending\<close> only from the status \<^verbatim>\<open>new\<close> or \<^verbatim>\<open>active\<close>. A further review is
  refused.
\<close>

theorem C6_resubmission_after_reject:
  "\<exists>db1 db2 db3 t2 t3.
      documents_route (Some (sample_upload ''a.pdf'')) 10 7 1 (db_with active_task) = Inr db1
    \<and> tasks_in db1 = [submitted_task]
    \<and> verify_route ''rejected'' None None ''system'' 20 7 1 db1 = Inr db2
    \<and> tasks_in db2 = [t2]
    \<and> active t2 \<and> \<not> newTask t2 \<and> verificationStatus t2 = V_rejected
    \<and> documents_route (Some (sample_upload ''b.pdf'')) 30 7 1 db2 = Inr db3
    \<and> tasks_in db3 = [t3]
    \<and> verificationStatus t3 = V_rejected \<and> active t3 \<and> status t3 = S_pendingVerification
    \<and> submittedDocuments t3
        = [document_of 10 (sample_upload ''a.pdf''), document_of 30 (sample_upload ''b.pdf'')]
    \<and> verify_route ''completed'' None None ''system'' 40 7 1 db3
        = Inl (NotPendingReview V_rejected S_pendingVerification)"
  by (simp add: documents_route_def verify_route_def on_employee_def on_task_def db_with_def
      tasks_in_def upload_document_def verify_task_def updateTaskCounts_def
      sample_employee_def sample_defs js_or_def)

section \<open>Review\<close>

text \<open>
  C8. Let the review request name an employee and a task the store holds, with the
  decision \<^verbatim>\<open>completed\<close> (approve) or \<^verbatim>\<open>rejected\<close> (reject). The route fails with
  the not-pending error exactly when the task's \<open>verificationStatus\<close> is not
  \<open>pending\<close>; a failed request stores nothing, so the task is unchanged. When it is
  \<open>pending\<close>, approving stores the task with \<open>completed\<close> alone set and
  \<open>verificationStatus = approved\<close>, and rejecting stores it with \<open>active\<close> alone set
  and \<open>verificationStatus = rejected\<close>.
\<close>

theorem C8_review:
  assumes "lookup_employee employeeId db = Some e"
    and "find (\<lambda>t. task_id t = taskId) (tasks e) = Some t"
    and "st = ''completed'' \<or> st = ''rejected''"
  shows "((\<exists>v s. verify_route st reason note adminId now employeeId taskId db
                   = Inl (NotPendingReview v s))
            = (verificationStatus t \<noteq> V_pending))
       \<and> (verificationStatus t = V_pending \<longrightarrow>
            (\<exists>db' t'. verify_route ''completed'' reason note adminId now employeeId taskId db
                         = Inr db'
               \<and> lookup_task employeeId taskId db' = Some t'
               \<and> completed t' \<and> \<not> active t' \<and> \<not> newTask t' \<and> \<not> failed t'
               \<and> verificationStatus t' = V_approved)
          \<and> (\<exists>db' t'. verify_route ''rejected'' reason note adminId now employeeId taskId db
                         = Inr db'
               \<and> lookup_task employeeId taskId db' = Some t'
               \<and> active t' \<and> \<not> completed t' \<and> \<not> newTask t' \<and> \<not> failed t'
               \<and> verificationStatus t' = V_rejected))"
proof -
  have tid: "task_id t = taskId" using assms(2) by (auto dest: find_Some_holds)
  note rs = route_step[OF assms(1,2)]
  have A: "verificationStatus t \<noteq> V_pending \<Longrightarrow>
      verify_route st reason note adminId now employeeId taskId db
        = Inl (NotPendingReview (verificationStatus t) (status t))"
    using rs[of "verify_task st reason note adminId now"
        "NotPendingReview (verificationStatus t) (status t)"] assms(3)
    by (auto simp: verify_route_def verify_task_def)
  have B: "verificationStatus t = V_pending \<Longrightarrow> s = ''completed'' \<or> s = ''rejected'' \<Longrightarrow>
      \<exists>c' t' db'. verify_task s reason note adminId now (taskCounts e) t = Inr (c', t')
         \<and> verify_route s reason note adminId now employeeId taskId db = Inr db'
         \<and> lookup_task employeeId taskId db' = Some t'" for s
  proof -
    assume p: "verificationStatus t = V_pending" and s: "s = ''completed'' \<or> s = ''rejected''"
    then obtain c' t' where r: "verify_task s reason note adminId now (taskCounts e) t = Inr (c', t')"
      by (auto simp: verify_task_def)
    with tid have "task_id t' = taskId" by (auto dest: verify_task_id)
    with r rs[of "verify_task s reason note adminId now" undefined c' t'] s
    show ?thesis by (auto simp: verify_route_def)
  qed
  have 1: "(\<exists>v s. verify_route st reason note adminId now employeeId taskId db
                   = Inl (NotPendingReview v s)) = (verificationStatus t \<noteq> V_pending)"
    using A B[of st] assms(3) by auto
  have 2: "verificationStatus t = V_pending \<Longrightarrow>
      (\<exists>db' t'. verify_route ''completed'' reason note adminId now employeeId taskId db = Inr db'
               \<and> lookup_task employeeId taskId db' = Some t'
               \<and> completed t' \<and> \<not> active t' \<and> \<not> newTask t' \<and> \<not> failed t'
               \<and> verificationStatus t' = V_approved)"
    using B[of "''completed''"] by (auto simp: verify_task_def)
  have 3: "verificationStatus t = V_pending \<Longrightarrow>
      (\<exists>db' t'. verify_route ''rejected'' reason note adminId now employeeId taskId db = Inr db'
               \<and> lookup_task employeeId taskId db' = Some t'
               \<and> active t' \<and> \<not> completed t' \<and> \<not> newTask t' \<and> \<not> failed t'
               \<and> verificationStatus t' = V_rejected)"
    using B[of "''rejected''"] by (auto simp: verify_task_def)
  from 1 2 3 show ?thesis by blast
qed

theorem C8_review_witness:
  "lookup_employee 7 (db_with pending_task) = Some (sample_employee pending_task)
   \<and> find (\<lambda>t. task_id t = 1) (tasks (sample_employee pending_task)) = Some pending_task
   \<and> verificationStatus pending_task = V_pending
   \<and> (\<exists>db' t'. verify_route ''completed'' None None ''system'' 20 7 1 (db_with pending_task)
                  = Inr db'
        \<and> lookup_task 7 1 db' = Some t'
        \<and> completed t' \<and> \<not> active t' \<and> \<not> newTask t' \<and> \<not> failed t'
        \<and> verificationStatus t' = V_approved)
   \<and> (\<exists>db' t'. verify_route ''rejected'' None None ''system'' 20 7 1 (db_with pending_task)
                  = Inr db'
        \<and> lookup_task 7 1 db' = Some t'
        \<and> active t' \<and> \<not> completed t' \<and> \<not> newTask t' \<and> \<not> failed t'
        \<and> verificationStatus t' = V_rejected)
   \<and> lookup_employee 7 (db_with completed_task) = Some (sample_employee completed_task)
   \<and> find (\<lambda>t. task_id t = 1) (tasks (sample_employee completed_task)) = Some completed_task
   \<and> verificationStatus completed_task \<noteq> V_pending
   \<and> (\<exists>v s. verify_route ''rejected'' None None ''system'' 20 7 1 (db_with completed_task)
               = Inl (NotPendingReview v s))"
proof -
  have e: "lookup_employee 7 (db_with t) = Some (sample_employee t)" for t
    by (simp add: lookup_employee_def db_with_def sample_employee_def updateTaskCounts_def)
  have f1: "find (\<lambda>t. task_id t = 1) (tasks (sample_employee pending_task)) = Some pending_task"
    by (simp add: sample_employee_def updateTaskCounts_def sample_defs)
  have f2: "find (\<lambda>t. task_id t = 1) (tasks (sample_employee completed_task))
      = Some completed_task"
    by (simp add: sample_employee_def updateTaskCounts_def sample_defs)
  have h1: "verificationStatus pending_task = V_pending" by (simp add: sample_defs)
  have h2: "verificationStatus completed_task \<noteq> V_pending" by (simp add: sample_defs)
  have s: "''rejected'' = ''completed'' \<or> ''rejected'' = ''rejected''" by simp
  from C8_review[OF e f1 s, of None None "''system''" 20]
       C8_review[OF e f2 s, of None None "''system''" 20] e f1 f2 h1 h2
  show ?thesis by blast
qed

section \<open>Accepting a task\<close>

text \<open>
  C9 (amended). Accepting makes a task active whatever its current state, new or
  not, also one under review and one that is completed or failed: no
  invalid-transition error is raised at acceptance. The client's \<open>acceptTask\<close>
  fails with the task-expired error exactly when the deadline has passed and
  otherwise returns the active flag set; the server's update route with
  \<^verbatim>\<open>status: 'active'\<close> returns no error, and its state update leaves the task active
  when the deadline has not passed and failed with \<open>verificationStatus = expired\<close>
  when it has.
\<close>

theorem C9_accept:
  "(isTaskExpired now ct \<longrightarrow> acceptTask now ct = Inl TaskExpired)
   \<and> (\<not> isTaskExpired now ct \<longrightarrow>
        acceptTask now ct
          = Inr \<lparr>fs_newTask = False, fs_active = True, fs_completed = False,
                 fs_failed = False\<rparr>)
   \<and> (\<exists>t'. put_task (Some ''active'') [] [] adminId note now stateTime c t = Inr (c, t')
        \<and> exactly_one t'
        \<and> (if endDate_before (endDate t) stateTime
            then failed t' \<and> verificationStatus t' = V_expired
            else active t' \<and> status t' = S_active \<and> verificationStatus t' = V_empty))"
  by (simp add: acceptTask_def put_task_def put_status_def put_status_label_def
      updateTaskState_def exactly_one_def trueStates_def)

theorem C9_accept_witness:
  "isTaskExpired 2000 pending_client_task
   \<and> acceptTask 2000 pending_client_task = Inl TaskExpired
   \<and> \<not> isTaskExpired 5 pending_client_task
   \<and> acceptTask 5 pending_client_task
       = Inr \<lparr>fs_newTask = False, fs_active = True, fs_completed = False, fs_failed = False\<rparr>
   \<and> \<not> endDate_before (endDate pending_task) 6
   \<and> (\<exists>t'. put_task (Some ''active'') [] [] ''system'' None 5 6 no_counts pending_task
               = Inr (no_counts, t')
        \<and> exactly_one t' \<and> active t' \<and> status t' = S_active)
   \<and> endDate_before (endDate pending_task) 2001
   \<and> (\<exists>t'. put_task (Some ''active'') [] [] ''system'' None 2000 2001 no_counts pending_task
               = Inr (no_counts, t')
        \<and> exactly_one t' \<and> failed t' \<and> verificationStatus t' = V_expired)"
proof -
  have h3: "isTaskExpired 2000 pending_client_task" "\<not> isTaskExpired 5 pending_client_task"
    by (simp_all add: isTaskExpired_def pending_client_task_def sample_client_task_def)
  have h4: "\<not> endDate_before (endDate pending_task) 6"
    "endDate_before (endDate pending_task) 2001"
    by (simp_all add: endDate_before_def sample_defs)
  from C9_accept[of 2000 pending_client_task "''system''" None 2001 no_counts pending_task]
       C9_accept[of 5 pending_client_task "''system''" None 6 no_counts pending_task] h3 h4
  show ?thesis by simp blast
qed

text \<open>
  The claim as stated fails: a task under review is not new, and pendingVerification
  \<open>\<rightarrow>\<close> active is no pair of the legal table, yet the client's \<open>acceptTask\<close> and the
  update route accept it without an error; the update route accepts a completed
  task as well.
\<close>

theorem C9_counterexample:
  "\<not> c_newTask pending_client_task
   \<and> getTaskStatus 5 (Some pending_client_task) = ''pendingVerification''
   \<and> \<not> spec_accepts ''pendingVerification'' ''active''
   \<and> acceptTask 5 pending_client_task
       = Inr \<lparr>fs_newTask = False, fs_active = True, fs_completed = False, fs_failed = False\<rparr>
   \<and> \<not> newTask pending_task \<and> verificationStatus pending_task = V_pending
   \<and> (\<exists>c' t'. put_task (Some ''active'') [] [] ''system'' None 5 6 no_counts pending_task
                 = Inr (c', t') \<and> active t')
   \<and> completed completed_task
   \<and> (\<exists>c' t'. put_task (Some ''active'') [] [] ''system'' None 5 6 no_counts completed_task
                 = Inr (c', t') \<and> active t' \<and> \<not> completed t')"
  by (simp add: acceptTask_def isTaskExpired_def getTaskStatus_def pending_client_task_def
      sample_client_task_def spec_accepts_def legal_table_def put_task_def put_status_def
      put_status_label_def updateTaskState_def endDate_before_def sample_defs)

end
